theory Spec2Isabelle
  imports Complex_Main
begin

section \<open>Python values\<close>

text \<open>
  The four scripts are straight-line Python: module-level lists of numeric literals, a
  sequence of calls into the charting library, one call that writes the image and one
  \<^verbatim>\<open>print\<close>.  The x-axis lists hold Python ints; the y-value lists hold ints or
  decimal float literals.  No arithmetic is done on any of them, they are only handed
  on, so a y-value is modelled by the rational number its literal denotes.
\<close>

text \<open>
  Python's \<^verbatim>\<open>str\<close> on an int: the decimal digits, most significant first, with a
  minus sign for a negative number.
\<close>

definition digit_char :: "nat \<Rightarrow> char" where
  "digit_char d = ''0123456789'' ! d"

function nat_digits :: "nat \<Rightarrow> string" where
  "nat_digits n =
     (if n < 10 then [digit_char n] else nat_digits (n div 10) @ [digit_char (n mod 10)])"
  by pat_completeness auto
termination
  by (relation "measure id") auto

declare nat_digits.simps [simp del]

definition str :: "int \<Rightarrow> string" where
  "str i = (if i < 0 then CHR ''-'' # nat_digits (nat (- i)) else nat_digits (nat i))"

text \<open>
  Keyword arguments of a library call: a Python dict from argument name to value.
  A call cannot repeat a keyword, so an association list in the order written is enough.
\<close>

datatype kwval = KInt int | KFloat rat | KStr string

type_synonym kwargs = "(string \<times> kwval) list"

definition kwarg :: "kwargs \<Rightarrow> string \<Rightarrow> kwval option" where
  "kwarg kw k = map_of kw k"

text \<open>The two non-ASCII characters of the titles and labels, as their UTF-8 bytes.\<close>

definition em_dash :: string where
  "em_dash = [CHR 0xE2, CHR 0x80, CHR 0x94]"

definition micro_sign :: string where
  "micro_sign = [CHR 0xC2, CHR 0xB5]"

definition newline :: string where
  "newline = [CHR 0x0A]"

section \<open>The charting library's state\<close>

text \<open>
  What the library holds after the calls of a script: a figure with its panels (axes),
  each panel with the lines drawn on it and the settings given to it.  A setting the
  script never gives is \<open>None\<close>: the library then computes it by itself.
\<close>

record line2d =
  xdata :: "int list"
  ydata :: "rat list"
  props :: kwargs

record axes =
  ax_lines :: "line2d list"
  xlabel :: "(string \<times> kwargs) option"
  ylabel :: "(string \<times> kwargs) option"
  title :: "(string \<times> kwargs) option"
  xscale :: "string \<times> kwargs"
  xticks :: "int list option"
  xticklabels :: "(string list \<times> kwargs) option"
  tick_params_calls :: "kwargs list"
  grid_setting :: "(bool \<times> kwargs) option"
  legend_setting :: "kwargs option"

record figure =
  figsize :: "rat \<times> rat"
  axs :: "axes list"
  suptitle_setting :: "(string \<times> kwargs) option"
  fig_texts :: "(rat \<times> rat \<times> string \<times> kwargs) list"
  tight :: bool

text \<open>A fresh panel: nothing drawn, a linear x-axis, ticks and labels left to the library.\<close>

definition new_axes :: axes where
  "new_axes = \<lparr> ax_lines = [], xlabel = None, ylabel = None, title = None,
      xscale = (''linear'', []), xticks = None, xticklabels = None,
      tick_params_calls = [], grid_setting = None, legend_setting = None \<rparr>"

definition new_figure :: "rat \<times> rat \<Rightarrow> nat \<Rightarrow> figure" where
  "new_figure sz n = \<lparr> figsize = sz, axs = replicate n new_axes,
      suptitle_setting = None, fig_texts = [], tight = False \<rparr>"

section \<open>The process\<close>

text \<open>
  Everything outside the program text that a run could depend on: the command line, the
  environment variables, the files already on disk, bytes waiting on the network, and
  whether a path can be written.
\<close>

record environment =
  argv :: "string list"
  environ :: "(string \<times> string) list"
  disk :: "(string \<times> string) list"
  network :: "string list"
  writable :: "string \<Rightarrow> bool"

datatype error =
    ValueError nat nat
  | OSError string
  | NameError

record proc =
  env :: environment
  backend :: "string option"
  fig :: "figure option"
  savefig_calls :: "(string \<times> kwargs) list"
  written :: "(string \<times> figure \<times> kwargs) list"
  stdout :: "string list"

definition start :: "environment \<Rightarrow> proc" where
  "start e = \<lparr> env = e, backend = None, fig = None, savefig_calls = [],
      written = [], stdout = [] \<rparr>"

text \<open>
  A statement either returns the new state (\<open>Inr\<close>) or raises (\<open>Inl\<close>), and then
  gives the exception together with the state the process is left in.  A script is the
  list of its statements, run top to bottom; the first exception ends the run, since no
  script has a \<^verbatim>\<open>try\<close>, and the statements after it are never reached.
\<close>

type_synonym outcome = "(error \<times> proc) + proc"

type_synonym stmt = "proc \<Rightarrow> outcome"

fun run_stmts :: "stmt list \<Rightarrow> proc \<Rightarrow> outcome" where
  "run_stmts [] s = Inr s"
| "run_stmts (c # cs) s =
     (case c s of Inl (e, s') \<Rightarrow> Inl (e, s') | Inr s' \<Rightarrow> run_stmts cs s')"

definition run :: "stmt list \<Rightarrow> environment \<Rightarrow> outcome" where
  "run prog e = run_stmts prog (start e)"

definition raised :: "outcome \<Rightarrow> error option" where
  "raised r = (case r of Inl (e, s) \<Rightarrow> Some e | Inr s \<Rightarrow> None)"

definition final :: "outcome \<Rightarrow> proc" where
  "final r = (case r of Inl (e, s) \<Rightarrow> s | Inr s \<Rightarrow> s)"

section \<open>The library calls the scripts make\<close>

text \<open>
  Modelled from the spec: the charting library (matplotlib) is imported by every script
  and is not part of the repository.  Each call is modelled by what the spec says the
  renderer does with it: it records the series or the setting on the panel or figure it
  is called on.  \<^verbatim>\<open>plt.subplots\<close> makes the figure and its panels; a panel handle
  (\<^verbatim>\<open>ax\<close>, \<^verbatim>\<open>ax1\<close>, \<^verbatim>\<open>ax2\<close>) is the panel's position in the figure.
\<close>

definition use :: "string \<Rightarrow> stmt" where
  "use b s = Inr (s\<lparr>backend := Some b\<rparr>)"

definition subplots :: "nat \<Rightarrow> nat \<Rightarrow> rat \<times> rat \<Rightarrow> stmt" where
  "subplots nrows ncols sz s = Inr (s\<lparr>fig := Some (new_figure sz (nrows * ncols))\<rparr>)"

text \<open>A call on a panel handle; a handle that names no panel is an unbound name.\<close>

definition on_axes :: "nat \<Rightarrow> (axes \<Rightarrow> error + axes) \<Rightarrow> stmt" where
  "on_axes i f s =
     (case fig s of
        None \<Rightarrow> Inl (NameError, s)
      | Some g \<Rightarrow>
          if i < length (axs g) then
            (case f (axs g ! i) of
               Inl e \<Rightarrow> Inl (e, s)
             | Inr a \<Rightarrow> Inr (s\<lparr>fig := Some (g\<lparr>axs := (axs g)[i := a]\<rparr>)\<rparr>))
          else Inl (NameError, s))"

definition on_figure :: "(figure \<Rightarrow> figure) \<Rightarrow> stmt" where
  "on_figure f s =
     (case fig s of None \<Rightarrow> Inl (NameError, s) | Some g \<Rightarrow> Inr (s\<lparr>fig := Some (f g)\<rparr>))"

text \<open>
  Modelled from the spec: \<^verbatim>\<open>Axes.plot\<close>, the plotting primitive, is library code.
  The spec says that a series whose length differs from its axis's fails in the
  primitive with a shape-mismatch error; otherwise the line is added after the lines
  already on the panel, with the x- and y-values as given.
\<close>

definition plot :: "nat \<Rightarrow> int list \<Rightarrow> rat list \<Rightarrow> kwargs \<Rightarrow> stmt" where
  "plot ax xs ys kw =
     on_axes ax (\<lambda>a.
       if length xs \<noteq> length ys then Inl (ValueError (length xs) (length ys))
       else Inr (a\<lparr>ax_lines := ax_lines a @ [\<lparr>xdata = xs, ydata = ys, props = kw\<rparr>]\<rparr>))"

definition set_xlabel :: "nat \<Rightarrow> string \<Rightarrow> kwargs \<Rightarrow> stmt" where
  "set_xlabel ax t kw = on_axes ax (\<lambda>a. Inr (a\<lparr>xlabel := Some (t, kw)\<rparr>))"

definition set_ylabel :: "nat \<Rightarrow> string \<Rightarrow> kwargs \<Rightarrow> stmt" where
  "set_ylabel ax t kw = on_axes ax (\<lambda>a. Inr (a\<lparr>ylabel := Some (t, kw)\<rparr>))"

definition set_title :: "nat \<Rightarrow> string \<Rightarrow> kwargs \<Rightarrow> stmt" where
  "set_title ax t kw = on_axes ax (\<lambda>a. Inr (a\<lparr>title := Some (t, kw)\<rparr>))"

text \<open>
  Changing the scale of the x-axis gives the axis the new scale's own ticks and labels
  again; ticks set afterwards replace them.
\<close>

definition set_xscale :: "nat \<Rightarrow> string \<Rightarrow> kwargs \<Rightarrow> stmt" where
  "set_xscale ax name kw =
     on_axes ax (\<lambda>a. Inr (a\<lparr>xscale := (name, kw), xticks := None, xticklabels := None\<rparr>))"

definition set_xticks :: "nat \<Rightarrow> int list \<Rightarrow> stmt" where
  "set_xticks ax ts = on_axes ax (\<lambda>a. Inr (a\<lparr>xticks := Some ts\<rparr>))"

definition set_xticklabels :: "nat \<Rightarrow> string list \<Rightarrow> kwargs \<Rightarrow> stmt" where
  "set_xticklabels ax ls kw = on_axes ax (\<lambda>a. Inr (a\<lparr>xticklabels := Some (ls, kw)\<rparr>))"

definition tick_params :: "nat \<Rightarrow> kwargs \<Rightarrow> stmt" where
  "tick_params ax kw =
     on_axes ax (\<lambda>a. Inr (a\<lparr>tick_params_calls := tick_params_calls a @ [kw]\<rparr>))"

definition grid :: "nat \<Rightarrow> bool \<Rightarrow> kwargs \<Rightarrow> stmt" where
  "grid ax b kw = on_axes ax (\<lambda>a. Inr (a\<lparr>grid_setting := Some (b, kw)\<rparr>))"

definition legend :: "nat \<Rightarrow> kwargs \<Rightarrow> stmt" where
  "legend ax kw = on_axes ax (\<lambda>a. Inr (a\<lparr>legend_setting := Some kw\<rparr>))"

definition suptitle :: "string \<Rightarrow> kwargs \<Rightarrow> stmt" where
  "suptitle t kw = on_figure (\<lambda>g. g\<lparr>suptitle_setting := Some (t, kw)\<rparr>)"

definition fig_text :: "rat \<Rightarrow> rat \<Rightarrow> string \<Rightarrow> kwargs \<Rightarrow> stmt" where
  "fig_text x y t kw = on_figure (\<lambda>g. g\<lparr>fig_texts := fig_texts g @ [(x, y, t, kw)]\<rparr>)"

text \<open>
  \<^verbatim>\<open>plt.tight_layout\<close> and \<^verbatim>\<open>plt.savefig\<close> work on the current figure; when
  there is none the library makes an empty one of its default size.
\<close>

definition gcf :: "proc \<Rightarrow> figure" where
  "gcf s = (case fig s of Some g \<Rightarrow> g | None \<Rightarrow> new_figure (6.4, 4.8) 0)"

definition tight_layout :: stmt where
  "tight_layout s = Inr (s\<lparr>fig := Some ((gcf s)\<lparr>tight := True\<rparr>)\<rparr>)"

text \<open>
  Writing the image: every call is noted with its arguments, and is one attempt to
  write the path.  Where the path cannot be written the call raises and no file
  appears; otherwise the file holds the figure as it is now, saved with the keyword
  arguments of the call.
\<close>

definition savefig :: "string \<Rightarrow> kwargs \<Rightarrow> stmt" where
  "savefig fname kw s =
     (let s' = s\<lparr>fig := Some (gcf s), savefig_calls := savefig_calls s @ [(fname, kw)]\<rparr>
      in if writable (env s) fname
         then Inr (s'\<lparr>written := written s @ [(fname, gcf s, kw)]\<rparr>)
         else Inl (OSError fname, s'))"

definition print :: "string \<Rightarrow> stmt" where
  "print line s = Inr (s\<lparr>stdout := stdout s @ [line]\<rparr>)"

section \<open>The data of the scripts\<close>

text \<open>
  The module-level constants, as written.  \<^verbatim>\<open>msg_sizes\<close> is bound to the same
  list in the cache-miss, cycles-per-byte and throughput scripts, and
  \<^verbatim>\<open>system_config\<close> to the same text; the latency script has a text of its own.
\<close>

definition msg_sizes :: "int list" where
  "msg_sizes = [64, 256, 1024, 4096]"

definition thread_counts :: "int list" where
  "thread_counts = [1, 2, 4, 8]"

definition l1_misses_a1 :: "rat list" where
  "l1_misses_a1 = [291968304, 309217729, 307166401, 347778830]"

definition l1_misses_a2 :: "rat list" where
  "l1_misses_a2 = [286537273, 314324731, 346897605, 513598431]"

definition l1_misses_a3 :: "rat list" where
  "l1_misses_a3 = [295035969, 294291095, 289806198, 454019805]"

definition llc_misses_a1 :: "rat list" where
  "llc_misses_a1 = [26389, 18359, 19765, 24503]"

definition llc_misses_a2 :: "rat list" where
  "llc_misses_a2 = [20707, 25050, 78139, 1652451]"

definition llc_misses_a3 :: "rat list" where
  "llc_misses_a3 = [8207, 9827, 6801, 12790]"

definition cycles_per_byte_a1 :: "rat list" where
  "cycles_per_byte_a1 = [644.0, 161.7, 41.3, 10.8]"

definition cycles_per_byte_a2 :: "rat list" where
  "cycles_per_byte_a2 = [101.1, 25.5, 6.2, 1.9]"

definition cycles_per_byte_a3 :: "rat list" where
  "cycles_per_byte_a3 = [128.2, 29.7, 7.1, 2.2]"

definition latency_a1 :: "rat list" where
  "latency_a1 = [14.56, 7.30, 3.95, 2.84]"

definition latency_a2 :: "rat list" where
  "latency_a2 = [2.24, 1.11, 0.58, 0.41]"

definition latency_a3 :: "rat list" where
  "latency_a3 = [3.43, 1.72, 1.05, 0.78]"

definition throughput_a1 :: "rat list" where
  "throughput_a1 = [0.1032, 0.4394, 1.6734, 6.2939]"

definition throughput_a2 :: "rat list" where
  "throughput_a2 = [0.7531, 3.064, 11.4204, 39.766]"

definition throughput_a3 :: "rat list" where
  "throughput_a3 = [0.386, 1.7111, 6.4895, 24.3144]"

definition system_config :: string where
  "system_config =
     ''System: Linux 6.14.0 | CPU: 13th Gen Intel i7-13700H | RAM: 16 GB'' @ newline @
     ''Network: veth pair (net namespaces) | Duration: 3s | Threads: avg across 1,2,4,8''"

definition system_config_latency :: string where
  "system_config_latency =
     ''System: Linux 6.14.0 | CPU: 13th Gen Intel i7-13700H | RAM: 16 GB'' @ newline @
     ''Network: veth pair (net namespaces) | Duration: 3s | Msg sizes: avg across 64,256,1024,4096''"

section \<open>The four scripts\<close>

text \<open>
  The panel handles bound by \<^verbatim>\<open>plt.subplots\<close>: \<^verbatim>\<open>fig, ax = ...\<close> in the
  one-panel scripts, \<^verbatim>\<open>fig, (ax1, ax2) = ...\<close> in the cache-miss script.
\<close>

definition ax :: nat where "ax = 0"
definition ax1 :: nat where "ax1 = 0"
definition ax2 :: nat where "ax2 = 1"

text \<open>
  Each script is given twice: its statements over the lists it plots, which are the
  names the statements use, and the script itself, with the lists bound to the literals
  above.  The first is what the script would do had the literals been edited.
\<close>

text \<open>\<^verbatim>\<open>MT25082_plot_cache_misses.py\<close>\<close>

definition plot_cache_misses_on ::
  "int list \<Rightarrow> rat list \<Rightarrow> rat list \<Rightarrow> rat list \<Rightarrow> rat list \<Rightarrow> rat list \<Rightarrow> rat list \<Rightarrow> stmt list" where
  "plot_cache_misses_on xs l1_a1 l1_a2 l1_a3 llc_a1 llc_a2 llc_a3 =
     [use ''Agg'',
      subplots 1 2 (14, 6),
      plot ax1 xs l1_a1
        [(''marker'', KStr ''o''), (''linewidth'', KInt 2), (''markersize'', KInt 8),
         (''color'', KStr ''#e74c3c''), (''label'', KStr ''A1: Two-Copy (send/recv)'')],
      plot ax1 xs l1_a2
        [(''marker'', KStr ''s''), (''linewidth'', KInt 2), (''markersize'', KInt 8),
         (''color'', KStr ''#2ecc71''), (''label'', KStr ''A2: One-Copy (sendmsg + iovec)'')],
      plot ax1 xs l1_a3
        [(''marker'', KStr ''^''), (''linewidth'', KInt 2), (''markersize'', KInt 8),
         (''color'', KStr ''#3498db''), (''label'', KStr ''A3: Zero-Copy (MSG_ZEROCOPY)'')],
      set_xlabel ax1 ''Message Size (bytes)'' [(''fontsize'', KInt 12), (''fontweight'', KStr ''bold'')],
      set_ylabel ax1 ''L1 Data Cache Misses'' [(''fontsize'', KInt 12), (''fontweight'', KStr ''bold'')],
      set_title ax1 ''L1 Cache Misses vs Message Size'' [(''fontsize'', KInt 13), (''fontweight'', KStr ''bold'')],
      set_xscale ax1 ''log'' [(''base'', KInt 2)],
      set_xticks ax1 xs,
      set_xticklabels ax1 (map str xs) [(''fontsize'', KInt 10)],
      tick_params ax1 [(''axis'', KStr ''y''), (''labelsize'', KInt 10)],
      grid ax1 True [(''linestyle'', KStr ''--''), (''alpha'', KFloat 0.6)],
      legend ax1 [(''fontsize'', KInt 9), (''loc'', KStr ''upper left''), (''framealpha'', KFloat 0.9)],
      plot ax2 xs llc_a1
        [(''marker'', KStr ''o''), (''linewidth'', KInt 2), (''markersize'', KInt 8),
         (''color'', KStr ''#e74c3c''), (''label'', KStr ''A1: Two-Copy (send/recv)'')],
      plot ax2 xs llc_a2
        [(''marker'', KStr ''s''), (''linewidth'', KInt 2), (''markersize'', KInt 8),
         (''color'', KStr ''#2ecc71''), (''label'', KStr ''A2: One-Copy (sendmsg + iovec)'')],
      plot ax2 xs llc_a3
        [(''marker'', KStr ''^''), (''linewidth'', KInt 2), (''markersize'', KInt 8),
         (''color'', KStr ''#3498db''), (''label'', KStr ''A3: Zero-Copy (MSG_ZEROCOPY)'')],
      set_xlabel ax2 ''Message Size (bytes)'' [(''fontsize'', KInt 12), (''fontweight'', KStr ''bold'')],
      set_ylabel ax2 ''LLC Load Misses'' [(''fontsize'', KInt 12), (''fontweight'', KStr ''bold'')],
      set_title ax2 ''LLC Load Misses vs Message Size'' [(''fontsize'', KInt 13), (''fontweight'', KStr ''bold'')],
      set_xscale ax2 ''log'' [(''base'', KInt 2)],
      set_xticks ax2 xs,
      set_xticklabels ax2 (map str xs) [(''fontsize'', KInt 10)],
      tick_params ax2 [(''axis'', KStr ''y''), (''labelsize'', KInt 10)],
      grid ax2 True [(''linestyle'', KStr ''--''), (''alpha'', KFloat 0.6)],
      legend ax2 [(''fontsize'', KInt 9), (''loc'', KStr ''upper left''), (''framealpha'', KFloat 0.9)],
      suptitle (''Cache Misses vs Message Size '' @ em_dash @ '' Network I/O Primitives Comparison'')
        [(''fontsize'', KInt 14), (''fontweight'', KStr ''bold''), (''y'', KFloat 1.02)],
      fig_text 0.5 (- 0.04) system_config
        [(''ha'', KStr ''center''), (''fontsize'', KInt 9), (''style'', KStr ''italic''), (''color'', KStr ''gray'')],
      tight_layout,
      savefig ''MT25082_cache_misses.png'' [(''dpi'', KInt 200), (''bbox_inches'', KStr ''tight'')],
      print ''Saved: MT25082_cache_misses.png'']"

definition plot_cache_misses :: "stmt list" where
  "plot_cache_misses =
     plot_cache_misses_on msg_sizes l1_misses_a1 l1_misses_a2 l1_misses_a3
       llc_misses_a1 llc_misses_a2 llc_misses_a3"

text \<open>\<^verbatim>\<open>MT25082_plot_cycles_per_byte.py\<close>\<close>

definition plot_cycles_per_byte_on ::
  "int list \<Rightarrow> rat list \<Rightarrow> rat list \<Rightarrow> rat list \<Rightarrow> stmt list" where
  "plot_cycles_per_byte_on xs a1 a2 a3 =
     [use ''Agg'',
      subplots 1 1 (10, 6),
      plot ax xs a1
        [(''marker'', KStr ''o''), (''linewidth'', KInt 2), (''markersize'', KInt 8),
         (''color'', KStr ''#e74c3c''), (''label'', KStr ''A1: Two-Copy (send/recv)'')],
      plot ax xs a2
        [(''marker'', KStr ''s''), (''linewidth'', KInt 2), (''markersize'', KInt 8),
         (''color'', KStr ''#2ecc71''), (''label'', KStr ''A2: One-Copy (sendmsg + iovec)'')],
      plot ax xs a3
        [(''marker'', KStr ''^''), (''linewidth'', KInt 2), (''markersize'', KInt 8),
         (''color'', KStr ''#3498db''), (''label'', KStr ''A3: Zero-Copy (MSG_ZEROCOPY)'')],
      set_xlabel ax ''Message Size (bytes)'' [(''fontsize'', KInt 13), (''fontweight'', KStr ''bold'')],
      set_ylabel ax ''CPU Cycles per Byte Transferred'' [(''fontsize'', KInt 13), (''fontweight'', KStr ''bold'')],
      set_title ax (''CPU Cycles per Byte vs Message Size '' @ em_dash @ '' Network I/O Primitives Comparison'')
        [(''fontsize'', KInt 14), (''fontweight'', KStr ''bold''), (''pad'', KInt 15)],
      set_xscale ax ''log'' [(''base'', KInt 2)],
      set_xticks ax xs,
      set_xticklabels ax (map str xs) [(''fontsize'', KInt 11)],
      tick_params ax [(''axis'', KStr ''y''), (''labelsize'', KInt 11)],
      grid ax True [(''linestyle'', KStr ''--''), (''alpha'', KFloat 0.6)],
      legend ax [(''fontsize'', KInt 11), (''loc'', KStr ''upper right''), (''framealpha'', KFloat 0.9)],
      fig_text 0.5 (- 0.02) system_config
        [(''ha'', KStr ''center''), (''fontsize'', KInt 9), (''style'', KStr ''italic''), (''color'', KStr ''gray'')],
      tight_layout,
      savefig ''MT25082_cycles_per_byte.png'' [(''dpi'', KInt 200), (''bbox_inches'', KStr ''tight'')],
      print ''Saved: MT25082_cycles_per_byte.png'']"

definition plot_cycles_per_byte :: "stmt list" where
  "plot_cycles_per_byte =
     plot_cycles_per_byte_on msg_sizes cycles_per_byte_a1 cycles_per_byte_a2 cycles_per_byte_a3"

text \<open>\<^verbatim>\<open>MT25082_plot_latency.py\<close>: no call sets the scale of the x-axis.\<close>

definition plot_latency_on ::
  "int list \<Rightarrow> rat list \<Rightarrow> rat list \<Rightarrow> rat list \<Rightarrow> stmt list" where
  "plot_latency_on xs a1 a2 a3 =
     [use ''Agg'',
      subplots 1 1 (10, 6),
      plot ax xs a1
        [(''marker'', KStr ''o''), (''linewidth'', KInt 2), (''markersize'', KInt 8),
         (''color'', KStr ''#e74c3c''), (''label'', KStr ''A1: Two-Copy (send/recv)'')],
      plot ax xs a2
        [(''marker'', KStr ''s''), (''linewidth'', KInt 2), (''markersize'', KInt 8),
         (''color'', KStr ''#2ecc71''), (''label'', KStr ''A2: One-Copy (sendmsg + iovec)'')],
      plot ax xs a3
        [(''marker'', KStr ''^''), (''linewidth'', KInt 2), (''markersize'', KInt 8),
         (''color'', KStr ''#3498db''), (''label'', KStr ''A3: Zero-Copy (MSG_ZEROCOPY)'')],
      set_xlabel ax ''Thread Count'' [(''fontsize'', KInt 13), (''fontweight'', KStr ''bold'')],
      set_ylabel ax (''Average Latency ('' @ micro_sign @ ''s / message)'') [(''fontsize'', KInt 13), (''fontweight'', KStr ''bold'')],
      set_title ax (''Latency vs Thread Count '' @ em_dash @ '' Network I/O Primitives Comparison'')
        [(''fontsize'', KInt 14), (''fontweight'', KStr ''bold''), (''pad'', KInt 15)],
      set_xticks ax xs,
      set_xticklabels ax (map str xs) [(''fontsize'', KInt 11)],
      tick_params ax [(''axis'', KStr ''y''), (''labelsize'', KInt 11)],
      grid ax True [(''linestyle'', KStr ''--''), (''alpha'', KFloat 0.6)],
      legend ax [(''fontsize'', KInt 11), (''loc'', KStr ''upper left''), (''framealpha'', KFloat 0.9)],
      fig_text 0.5 (- 0.02) system_config_latency
        [(''ha'', KStr ''center''), (''fontsize'', KInt 9), (''style'', KStr ''italic''), (''color'', KStr ''gray'')],
      tight_layout,
      savefig ''MT25082_latency.png'' [(''dpi'', KInt 200), (''bbox_inches'', KStr ''tight'')],
      print ''Saved: MT25082_latency.png'']"

definition plot_latency :: "stmt list" where
  "plot_latency = plot_latency_on thread_counts latency_a1 latency_a2 latency_a3"

text \<open>\<^verbatim>\<open>MT25082_plot_throughput.py\<close>\<close>

definition plot_throughput_on ::
  "int list \<Rightarrow> rat list \<Rightarrow> rat list \<Rightarrow> rat list \<Rightarrow> stmt list" where
  "plot_throughput_on xs a1 a2 a3 =
     [use ''Agg'',
      subplots 1 1 (10, 6),
      plot ax xs a1
        [(''marker'', KStr ''o''), (''linewidth'', KInt 2), (''markersize'', KInt 8),
         (''color'', KStr ''#e74c3c''), (''label'', KStr ''A1: Two-Copy (send/recv)'')],
      plot ax xs a2
        [(''marker'', KStr ''s''), (''linewidth'', KInt 2), (''markersize'', KInt 8),
         (''color'', KStr ''#2ecc71''), (''label'', KStr ''A2: One-Copy (sendmsg + iovec)'')],
      plot ax xs a3
        [(''marker'', KStr ''^''), (''linewidth'', KInt 2), (''markersize'', KInt 8),
         (''color'', KStr ''#3498db''), (''label'', KStr ''A3: Zero-Copy (MSG_ZEROCOPY)'')],
      set_xlabel ax ''Message Size (bytes)'' [(''fontsize'', KInt 13), (''fontweight'', KStr ''bold'')],
      set_ylabel ax ''Throughput (Gbps)'' [(''fontsize'', KInt 13), (''fontweight'', KStr ''bold'')],
      set_title ax (''Throughput vs Message Size '' @ em_dash @ '' Network I/O Primitives Comparison'')
        [(''fontsize'', KInt 14), (''fontweight'', KStr ''bold''), (''pad'', KInt 15)],
      set_xscale ax ''log'' [(''base'', KInt 2)],
      set_xticks ax xs,
      set_xticklabels ax (map str xs) [(''fontsize'', KInt 11)],
      tick_params ax [(''axis'', KStr ''y''), (''labelsize'', KInt 11)],
      grid ax True [(''linestyle'', KStr ''--''), (''alpha'', KFloat 0.6)],
      legend ax [(''fontsize'', KInt 11), (''loc'', KStr ''upper left''), (''framealpha'', KFloat 0.9)],
      fig_text 0.5 (- 0.02) system_config
        [(''ha'', KStr ''center''), (''fontsize'', KInt 9), (''style'', KStr ''italic''), (''color'', KStr ''gray'')],
      tight_layout,
      savefig ''MT25082_throughput.png'' [(''dpi'', KInt 200), (''bbox_inches'', KStr ''tight'')],
      print ''Saved: MT25082_throughput.png'']"

definition plot_throughput :: "stmt list" where
  "plot_throughput = plot_throughput_on msg_sizes throughput_a1 throughput_a2 throughput_a3"

datatype script = CacheMisses | CyclesPerByte | Latency | Throughput

fun program :: "script \<Rightarrow> stmt list" where
  "program CacheMisses = plot_cache_misses"
| "program CyclesPerByte = plot_cycles_per_byte"
| "program Latency = plot_latency"
| "program Throughput = plot_throughput"

text \<open>The name each script gives to \<^verbatim>\<open>plt.savefig\<close>.\<close>

fun output_file :: "script \<Rightarrow> string" where
  "output_file CacheMisses = ''MT25082_cache_misses.png''"
| "output_file CyclesPerByte = ''MT25082_cycles_per_byte.png''"
| "output_file Latency = ''MT25082_latency.png''"
| "output_file Throughput = ''MT25082_throughput.png''"

section \<open>What a run leaves behind\<close>

definition panels :: "outcome \<Rightarrow> axes list" where
  "panels r = (case fig (final r) of None \<Rightarrow> [] | Some g \<Rightarrow> axs g)"

definition files_written :: "outcome \<Rightarrow> string list" where
  "files_written r = map fst (written (final r))"

definition printed :: "outcome \<Rightarrow> string list" where
  "printed r = stdout (final r)"

text \<open>The points of a line: the i-th x-value with the i-th y-value.\<close>

definition points :: "line2d \<Rightarrow> (int \<times> rat) list" where
  "points l = zip (xdata l) (ydata l)"

definition style :: "line2d \<Rightarrow> kwval option \<times> kwval option \<times> kwval option" where
  "style l = (kwarg (props l) ''marker'', kwarg (props l) ''color'', kwarg (props l) ''label'')"

text \<open>
  A run that ended in the plotting primitive's shape-mismatch error, with no image
  written and nothing printed.
\<close>

definition shape_failure :: "outcome \<Rightarrow> bool" where
  "shape_failure r =
     ((case raised r of Some (ValueError m n) \<Rightarrow> m \<noteq> n | _ \<Rightarrow> False)
      \<and> files_written r = [] \<and> printed r = [])"

text \<open>Two environments for trying the scripts: one where every path can be written, one where none can.\<close>

definition env_ok :: environment where
  "env_ok = \<lparr> argv = [], environ = [], disk = [], network = [], writable = (\<lambda>p. True) \<rparr>"

definition env_readonly :: environment where
  "env_readonly = \<lparr> argv = [], environ = [], disk = [], network = [], writable = (\<lambda>p. False) \<rparr>"

section \<open>Running the scripts\<close>

lemmas lib_defs = use_def subplots_def on_axes_def on_figure_def plot_def set_xlabel_def
  set_ylabel_def set_title_def set_xscale_def set_xticks_def set_xticklabels_def
  tick_params_def grid_def legend_def suptitle_def fig_text_def gcf_def tight_layout_def
  savefig_def print_def new_figure_def new_axes_def ax_def ax1_def ax2_def start_def run_def

lemmas data_defs = msg_sizes_def thread_counts_def l1_misses_a1_def l1_misses_a2_def
  l1_misses_a3_def llc_misses_a1_def llc_misses_a2_def llc_misses_a3_def
  cycles_per_byte_a1_def cycles_per_byte_a2_def cycles_per_byte_a3_def latency_a1_def
  latency_a2_def latency_a3_def throughput_a1_def throughput_a2_def throughput_a3_def

lemma replicate_two: "replicate 2 x = [x, x]"
  by (simp add: numeral_2_eq_2)

lemma str_msg_sizes: "map str msg_sizes = [''64'', ''256'', ''1024'', ''4096'']"
  by (simp add: msg_sizes_def str_def nat_digits.simps digit_char_def)

lemma str_thread_counts: "map str thread_counts = [''1'', ''2'', ''4'', ''8'']"
  by (simp add: thread_counts_def str_def nat_digits.simps digit_char_def)

lemma data_lengths:
  "length msg_sizes = 4" "length thread_counts = 4"
  "length l1_misses_a1 = 4" "length l1_misses_a2 = 4" "length l1_misses_a3 = 4"
  "length llc_misses_a1 = 4" "length llc_misses_a2 = 4" "length llc_misses_a3 = 4"
  "length cycles_per_byte_a1 = 4" "length cycles_per_byte_a2 = 4" "length cycles_per_byte_a3 = 4"
  "length latency_a1 = 4" "length latency_a2 = 4" "length latency_a3 = 4"
  "length throughput_a1 = 4" "length throughput_a2 = 4" "length throughput_a3 = 4"
  by (simp_all add: data_defs)

text \<open>
  The whole outcome of each script, for any lists of matching lengths and any
  environment: the figure \<open>F\<close> it builds, and then either the file and the printed line,
  or the exception of \<^verbatim>\<open>savefig\<close> with nothing written and nothing printed.
\<close>

lemma cache_misses_outcome:
  assumes "length l1_a1 = length xs" "length l1_a2 = length xs" "length l1_a3 = length xs" "length llc_a1 = length xs" "length llc_a2 = length xs" "length llc_a3 = length xs"
    and F: "F =
     \<lparr>figsize = (14, 6),
       axs =
        [\<lparr>ax_lines =
          [\<lparr>xdata = xs, ydata = l1_a1, props =
            [(''marker'', KStr ''o''), (''linewidth'', KInt 2), (''markersize'', KInt 8),
             (''color'', KStr ''#e74c3c''), (''label'', KStr ''A1: Two-Copy (send/recv)'')]\<rparr>,
           \<lparr>xdata = xs, ydata = l1_a2, props =
            [(''marker'', KStr ''s''), (''linewidth'', KInt 2), (''markersize'', KInt 8),
             (''color'', KStr ''#2ecc71''), (''label'', KStr ''A2: One-Copy (sendmsg + iovec)'')]\<rparr>,
           \<lparr>xdata = xs, ydata = l1_a3, props =
            [(''marker'', KStr ''^''), (''linewidth'', KInt 2), (''markersize'', KInt 8),
             (''color'', KStr ''#3498db''), (''label'', KStr ''A3: Zero-Copy (MSG_ZEROCOPY)'')]\<rparr>],
         xlabel = Some (''Message Size (bytes)'', [(''fontsize'', KInt 12), (''fontweight'', KStr ''bold'')]),
         ylabel = Some (''L1 Data Cache Misses'', [(''fontsize'', KInt 12), (''fontweight'', KStr ''bold'')]),
         title = Some (''L1 Cache Misses vs Message Size'', [(''fontsize'', KInt 13), (''fontweight'', KStr ''bold'')]),
         xscale = (''log'', [(''base'', KInt 2)]),
         xticks = Some xs,
         xticklabels = Some (map str xs, [(''fontsize'', KInt 10)]),
         tick_params_calls = [[(''axis'', KStr ''y''), (''labelsize'', KInt 10)]],
         grid_setting = Some (True, [(''linestyle'', KStr ''--''), (''alpha'', KFloat 0.6)]),
         legend_setting = Some [(''fontsize'', KInt 9), (''loc'', KStr ''upper left''), (''framealpha'', KFloat 0.9)]\<rparr>,
         \<lparr>ax_lines =
          [\<lparr>xdata = xs, ydata = llc_a1, props =
            [(''marker'', KStr ''o''), (''linewidth'', KInt 2), (''markersize'', KInt 8),
             (''color'', KStr ''#e74c3c''), (''label'', KStr ''A1: Two-Copy (send/recv)'')]\<rparr>,
           \<lparr>xdata = xs, ydata = llc_a2, props =
            [(''marker'', KStr ''s''), (''linewidth'', KInt 2), (''markersize'', KInt 8),
             (''color'', KStr ''#2ecc71''), (''label'', KStr ''A2: One-Copy (sendmsg + iovec)'')]\<rparr>,
           \<lparr>xdata = xs, ydata = llc_a3, props =
            [(''marker'', KStr ''^''), (''linewidth'', KInt 2), (''markersize'', KInt 8),
             (''color'', KStr ''#3498db''), (''label'', KStr ''A3: Zero-Copy (MSG_ZEROCOPY)'')]\<rparr>],
         xlabel = Some (''Message Size (bytes)'', [(''fontsize'', KInt 12), (''fontweight'', KStr ''bold'')]),
         ylabel = Some (''LLC Load Misses'', [(''fontsize'', KInt 12), (''fontweight'', KStr ''bold'')]),
         title = Some (''LLC Load Misses vs Message Size'', [(''fontsize'', KInt 13), (''fontweight'', KStr ''bold'')]),
         xscale = (''log'', [(''base'', KInt 2)]),
         xticks = Some xs,
         xticklabels = Some (map str xs, [(''fontsize'', KInt 10)]),
         tick_params_calls = [[(''axis'', KStr ''y''), (''labelsize'', KInt 10)]],
         grid_setting = Some (True, [(''linestyle'', KStr ''--''), (''alpha'', KFloat 0.6)]),
         legend_setting = Some [(''fontsize'', KInt 9), (''loc'', KStr ''upper left''), (''framealpha'', KFloat 0.9)]\<rparr>],
       suptitle_setting = Some ((''Cache Misses vs Message Size '' @ em_dash @ '' Network I/O Primitives Comparison''),
          [(''fontsize'', KInt 14), (''fontweight'', KStr ''bold''), (''y'', KFloat 1.02)]),
       fig_texts = [(0.5, - 0.04, system_config,
          [(''ha'', KStr ''center''), (''fontsize'', KInt 9), (''style'', KStr ''italic''), (''color'', KStr ''gray'')])],
       tight = True\<rparr>"
  shows "run (plot_cache_misses_on xs l1_a1 l1_a2 l1_a3 llc_a1 llc_a2 llc_a3) e =
     (if writable e ''MT25082_cache_misses.png''
      then Inr \<lparr>env = e, backend = Some ''Agg'', fig = Some F,
            savefig_calls = [(''MT25082_cache_misses.png'', [(''dpi'', KInt 200), (''bbox_inches'', KStr ''tight'')])],
            written = [(''MT25082_cache_misses.png'', F, [(''dpi'', KInt 200), (''bbox_inches'', KStr ''tight'')])], stdout = [''Saved: MT25082_cache_misses.png'']\<rparr>
      else Inl (OSError ''MT25082_cache_misses.png'',
          \<lparr>env = e, backend = Some ''Agg'', fig = Some F,
            savefig_calls = [(''MT25082_cache_misses.png'', [(''dpi'', KInt 200), (''bbox_inches'', KStr ''tight'')])],
            written = [], stdout = []\<rparr>))"
  unfolding F plot_cache_misses_on_def using assms(1-6)
  by (simp add: lib_defs replicate_two)

lemma cycles_per_byte_outcome:
  assumes "length a1 = length xs" "length a2 = length xs" "length a3 = length xs"
    and F: "F =
     \<lparr>figsize = (10, 6),
       axs =
        [\<lparr>ax_lines =
          [\<lparr>xdata = xs, ydata = a1, props =
            [(''marker'', KStr ''o''), (''linewidth'', KInt 2), (''markersize'', KInt 8),
             (''color'', KStr ''#e74c3c''), (''label'', KStr ''A1: Two-Copy (send/recv)'')]\<rparr>,
           \<lparr>xdata = xs, ydata = a2, props =
            [(''marker'', KStr ''s''), (''linewidth'', KInt 2), (''markersize'', KInt 8),
             (''color'', KStr ''#2ecc71''), (''label'', KStr ''A2: One-Copy (sendmsg + iovec)'')]\<rparr>,
           \<lparr>xdata = xs, ydata = a3, props =
            [(''marker'', KStr ''^''), (''linewidth'', KInt 2), (''markersize'', KInt 8),
             (''color'', KStr ''#3498db''), (''label'', KStr ''A3: Zero-Copy (MSG_ZEROCOPY)'')]\<rparr>],
         xlabel = Some (''Message Size (bytes)'', [(''fontsize'', KInt 13), (''fontweight'', KStr ''bold'')]),
         ylabel = Some (''CPU Cycles per Byte Transferred'', [(''fontsize'', KInt 13), (''fontweight'', KStr ''bold'')]),
         title = Some ((''CPU Cycles per Byte vs Message Size '' @ em_dash @ '' Network I/O Primitives Comparison''), [(''fontsize'', KInt 14), (''fontweight'', KStr ''bold''), (''pad'', KInt 15)]),
         xscale = (''log'', [(''base'', KInt 2)]),
         xticks = Some xs,
         xticklabels = Some (map str xs, [(''fontsize'', KInt 11)]),
         tick_params_calls = [[(''axis'', KStr ''y''), (''labelsize'', KInt 11)]],
         grid_setting = Some (True, [(''linestyle'', KStr ''--''), (''alpha'', KFloat 0.6)]),
         legend_setting = Some [(''fontsize'', KInt 11), (''loc'', KStr ''upper right''), (''framealpha'', KFloat 0.9)]\<rparr>],
       suptitle_setting = None,
       fig_texts = [(0.5, - 0.02, system_config,
          [(''ha'', KStr ''center''), (''fontsize'', KInt 9), (''style'', KStr ''italic''), (''color'', KStr ''gray'')])],
       tight = True\<rparr>"
  shows "run (plot_cycles_per_byte_on xs a1 a2 a3) e =
     (if writable e ''MT25082_cycles_per_byte.png''
      then Inr \<lparr>env = e, backend = Some ''Agg'', fig = Some F,
            savefig_calls = [(''MT25082_cycles_per_byte.png'', [(''dpi'', KInt 200), (''bbox_inches'', KStr ''tight'')])],
            written = [(''MT25082_cycles_per_byte.png'', F, [(''dpi'', KInt 200), (''bbox_inches'', KStr ''tight'')])], stdout = [''Saved: MT25082_cycles_per_byte.png'']\<rparr>
      else Inl (OSError ''MT25082_cycles_per_byte.png'',
          \<lparr>env = e, backend = Some ''Agg'', fig = Some F,
            savefig_calls = [(''MT25082_cycles_per_byte.png'', [(''dpi'', KInt 200), (''bbox_inches'', KStr ''tight'')])],
            written = [], stdout = []\<rparr>))"
  unfolding F plot_cycles_per_byte_on_def using assms(1-3)
  by (simp add: lib_defs)

lemma latency_outcome:
  assumes "length a1 = length xs" "length a2 = length xs" "length a3 = length xs"
    and F: "F =
     \<lparr>figsize = (10, 6),
       axs =
        [\<lparr>ax_lines =
          [\<lparr>xdata = xs, ydata = a1, props =
            [(''marker'', KStr ''o''), (''linewidth'', KInt 2), (''markersize'', KInt 8),
             (''color'', KStr ''#e74c3c''), (''label'', KStr ''A1: Two-Copy (send/recv)'')]\<rparr>,
           \<lparr>xdata = xs, ydata = a2, props =
            [(''marker'', KStr ''s''), (''linewidth'', KInt 2), (''markersize'', KInt 8),
             (''color'', KStr ''#2ecc71''), (''label'', KStr ''A2: One-Copy (sendmsg + iovec)'')]\<rparr>,
           \<lparr>xdata = xs, ydata = a3, props =
            [(''marker'', KStr ''^''), (''linewidth'', KInt 2), (''markersize'', KInt 8),
             (''color'', KStr ''#3498db''), (''label'', KStr ''A3: Zero-Copy (MSG_ZEROCOPY)'')]\<rparr>],
         xlabel = Some (''Thread Count'', [(''fontsize'', KInt 13), (''fontweight'', KStr ''bold'')]),
         ylabel = Some (''Average Latency ('' @ micro_sign @ ''s / message)'', [(''fontsize'', KInt 13), (''fontweight'', KStr ''bold'')]),
         title = Some ((''Latency vs Thread Count '' @ em_dash @ '' Network I/O Primitives Comparison''), [(''fontsize'', KInt 14), (''fontweight'', KStr ''bold''), (''pad'', KInt 15)]),
         xscale = (''linear'', []),
         xticks = Some xs,
         xticklabels = Some (map str xs, [(''fontsize'', KInt 11)]),
         tick_params_calls = [[(''axis'', KStr ''y''), (''labelsize'', KInt 11)]],
         grid_setting = Some (True, [(''linestyle'', KStr ''--''), (''alpha'', KFloat 0.6)]),
         legend_setting = Some [(''fontsize'', KInt 11), (''loc'', KStr ''upper left''), (''framealpha'', KFloat 0.9)]\<rparr>],
       suptitle_setting = None,
       fig_texts = [(0.5, - 0.02, system_config_latency,
          [(''ha'', KStr ''center''), (''fontsize'', KInt 9), (''style'', KStr ''italic''), (''color'', KStr ''gray'')])],
       tight = True\<rparr>"
  shows "run (plot_latency_on xs a1 a2 a3) e =
     (if writable e ''MT25082_latency.png''
      then Inr \<lparr>env = e, backend = Some ''Agg'', fig = Some F,
            savefig_calls = [(''MT25082_latency.png'', [(''dpi'', KInt 200), (''bbox_inches'', KStr ''tight'')])],
            written = [(''MT25082_latency.png'', F, [(''dpi'', KInt 200), (''bbox_inches'', KStr ''tight'')])], stdout = [''Saved: MT25082_latency.png'']\<rparr>
      else Inl (OSError ''MT25082_latency.png'',
          \<lparr>env = e, backend = Some ''Agg'', fig = Some F,
            savefig_calls = [(''MT25082_latency.png'', [(''dpi'', KInt 200), (''bbox_inches'', KStr ''tight'')])],
            written = [], stdout = []\<rparr>))"
  unfolding F plot_latency_on_def using assms(1-3)
  by (simp add: lib_defs)

lemma throughput_outcome:
  assumes "length a1 = length xs" "length a2 = length xs" "length a3 = length xs"
    and F: "F =
     \<lparr>figsize = (10, 6),
       axs =
        [\<lparr>ax_lines =
          [\<lparr>xdata = xs, ydata = a1, props =
            [(''marker'', KStr ''o''), (''linewidth'', KInt 2), (''markersize'', KInt 8),
             (''color'', KStr ''#e74c3c''), (''label'', KStr ''A1: Two-Copy (send/recv)'')]\<rparr>,
           \<lparr>xdata = xs, ydata = a2, props =
            [(''marker'', KStr ''s''), (''linewidth'', KInt 2), (''markersize'', KInt 8),
             (''color'', KStr ''#2ecc71''), (''label'', KStr ''A2: One-Copy (sendmsg + iovec)'')]\<rparr>,
           \<lparr>xdata = xs, ydata = a3, props =
            [(''marker'', KStr ''^''), (''linewidth'', KInt 2), (''markersize'', KInt 8),
             (''color'', KStr ''#3498db''), (''label'', KStr ''A3: Zero-Copy (MSG_ZEROCOPY)'')]\<rparr>],
         xlabel = Some (''Message Size (bytes)'', [(''fontsize'', KInt 13), (''fontweight'', KStr ''bold'')]),
         ylabel = Some (''Throughput (Gbps)'', [(''fontsize'', KInt 13), (''fontweight'', KStr ''bold'')]),
         title = Some ((''Throughput vs Message Size '' @ em_dash @ '' Network I/O Primitives Comparison''), [(''fontsize'', KInt 14), (''fontweight'', KStr ''bold''), (''pad'', KInt 15)]),
         xscale = (''log'', [(''base'', KInt 2)]),
         xticks = Some xs,
         xticklabels = Some (map str xs, [(''fontsize'', KInt 11)]),
         tick_params_calls = [[(''axis'', KStr ''y''), (''labelsize'', KInt 11)]],
         grid_setting = Some (True, [(''linestyle'', KStr ''--''), (''alpha'', KFloat 0.6)]),
         legend_setting = Some [(''fontsize'', KInt 11), (''loc'', KStr ''upper left''), (''framealpha'', KFloat 0.9)]\<rparr>],
       suptitle_setting = None,
       fig_texts = [(0.5, - 0.02, system_config,
          [(''ha'', KStr ''center''), (''fontsize'', KInt 9), (''style'', KStr ''italic''), (''color'', KStr ''gray'')])],
       tight = True\<rparr>"
  shows "run (plot_throughput_on xs a1 a2 a3) e =
     (if writable e ''MT25082_throughput.png''
      then Inr \<lparr>env = e, backend = Some ''Agg'', fig = Some F,
            savefig_calls = [(''MT25082_throughput.png'', [(''dpi'', KInt 200), (''bbox_inches'', KStr ''tight'')])],
            written = [(''MT25082_throughput.png'', F, [(''dpi'', KInt 200), (''bbox_inches'', KStr ''tight'')])], stdout = [''Saved: MT25082_throughput.png'']\<rparr>
      else Inl (OSError ''MT25082_throughput.png'',
          \<lparr>env = e, backend = Some ''Agg'', fig = Some F,
            savefig_calls = [(''MT25082_throughput.png'', [(''dpi'', KInt 200), (''bbox_inches'', KStr ''tight'')])],
            written = [], stdout = []\<rparr>))"
  unfolding F plot_throughput_on_def using assms(1-3)
  by (simp add: lib_defs)

lemmas outcomes =
  cache_misses_outcome [OF _ _ _ _ _ _ refl] cycles_per_byte_outcome [OF _ _ _ refl]
  latency_outcome [OF _ _ _ refl] throughput_outcome [OF _ _ _ refl]

lemmas script_defs =
  plot_cache_misses_def plot_cycles_per_byte_def plot_latency_def plot_throughput_def

lemmas observers = final_def raised_def panels_def files_written_def printed_def

section \<open>Output file and confirmation line\<close>

text \<open>
  Claim C1, as stated: every run of each script writes exactly one image file, under the
  script's fixed name, and prints exactly one line \<^verbatim>\<open>Saved: <filename>\<close>.
  As stated it fails: where the output path cannot be written, \<^verbatim>\<open>savefig\<close> raises,
  the run of the cache-miss script ends there, no file is written and nothing is printed.
\<close>

theorem c1_counterexample:
  "raised (run (program CacheMisses) env_readonly) = Some (OSError ''MT25082_cache_misses.png'')
   \<and> files_written (run (program CacheMisses) env_readonly) = []
   \<and> printed (run (program CacheMisses) env_readonly) = []"
  by (simp add: script_defs outcomes data_lengths observers env_readonly_def)

text \<open>
  Claim C1, amended: every run of each script in which the write of the image succeeds
  ends without an exception, has written exactly one file, the one with the script's
  fixed name, and has printed exactly one line, \<^verbatim>\<open>Saved: \<close> followed by that
  name.
\<close>

theorem c1_saved_when_writable:
  "writable e (output_file sc) \<Longrightarrow>
     raised (run (program sc) e) = None
     \<and> files_written (run (program sc) e) = [output_file sc]
     \<and> printed (run (program sc) e) = [''Saved: '' @ output_file sc]"
  by (cases sc) (simp_all add: script_defs outcomes data_lengths observers)

theorem c1_witness:
  "writable env_ok (output_file CacheMisses)
   \<and> files_written (run (program CacheMisses) env_ok) = [''MT25082_cache_misses.png'']
   \<and> printed (run (program CacheMisses) env_ok) = [''Saved: MT25082_cache_misses.png'']"
proof -
  have w: "writable env_ok (output_file CacheMisses)"
    by (simp add: env_ok_def)
  from c1_saved_when_writable [OF w] w show ?thesis by simp
qed

section \<open>What is plotted\<close>

text \<open>
  Claim C2: in the throughput script the only panel holds three lines, and the first,
  the two-copy series, has the x-values 64, 256, 1024, 4096 and the y-values 0.1032,
  0.4394, 1.6734, 6.2939, the i-th y-value paired with the i-th x-value.  This holds in
  every environment.
\<close>

theorem c2_throughput_two_copy:
  "\<exists>a l l2 l3.
     panels (run plot_throughput e) = [a] \<and> ax_lines a = [l, l2, l3]
     \<and> kwarg (props l) ''label'' = Some (KStr ''A1: Two-Copy (send/recv)'')
     \<and> xdata l = [64, 256, 1024, 4096]
     \<and> ydata l = [0.1032, 0.4394, 1.6734, 6.2939]
     \<and> points l = [(64, 0.1032), (256, 0.4394), (1024, 1.6734), (4096, 6.2939)]"
  by (simp add: script_defs outcomes data_lengths observers kwarg_def points_def
      msg_sizes_def throughput_a1_def)

text \<open>
  Claim C3: the latency script makes exactly one panel; its x-axis keeps the linear
  scale it starts with and has the ticks 1, 2, 4, 8.  Every panel of the other three
  scripts (two in the cache-miss script, one in each of the others) is given the
  logarithmic scale of base 2.
\<close>

theorem c3_latency_linear_others_log2:
  "map (\<lambda>a. (xscale a, xticks a)) (panels (run plot_latency e)) =
     [((''linear'', []), Some [1, 2, 4, 8])]
   \<and> map xscale (panels (run plot_cache_misses e)) =
     [(''log'', [(''base'', KInt 2)]), (''log'', [(''base'', KInt 2)])]
   \<and> map xscale (panels (run plot_cycles_per_byte e)) = [(''log'', [(''base'', KInt 2)])]
   \<and> map xscale (panels (run plot_throughput e)) = [(''log'', [(''base'', KInt 2)])]"
  by (simp add: script_defs outcomes data_lengths observers thread_counts_def)

section \<open>Axis ticks of the logarithmic panels\<close>

lemma str_literals:
  "str 64 = ''64''" "str 256 = ''256''" "str 1024 = ''1024''" "str 4096 = ''4096''"
  by (simp_all add: str_def nat_digits.simps digit_char_def)

text \<open>
  Claim C4: in every script and environment, a panel whose x-axis has the logarithmic
  scale of base 2 has its ticks set to the literal values 64, 256, 1024, 4096 and its
  tick labels set to their string forms, in that order: both are the ones the script
  gives after setting the scale, not ones the library computes.
\<close>

theorem c4_log_panels_tick_labels:
  "a \<in> set (panels (run (program sc) e)) \<Longrightarrow> xscale a = (''log'', [(''base'', KInt 2)]) \<Longrightarrow>
     xticks a = Some [64, 256, 1024, 4096]
     \<and> map_option fst (xticklabels a) = Some [''64'', ''256'', ''1024'', ''4096'']"
  by (cases sc)
     (auto simp add: script_defs outcomes data_lengths observers str_literals msg_sizes_def
       split: if_splits)

theorem c4_witness:
  "panels (run (program Throughput) env_ok) ! 0 \<in> set (panels (run (program Throughput) env_ok))
   \<and> xscale (panels (run (program Throughput) env_ok) ! 0) = (''log'', [(''base'', KInt 2)])
   \<and> xticks (panels (run (program Throughput) env_ok) ! 0) = Some [64, 256, 1024, 4096]
   \<and> map_option fst (xticklabels (panels (run (program Throughput) env_ok) ! 0)) =
       Some [''64'', ''256'', ''1024'', ''4096'']"
proof -
  have m: "panels (run (program Throughput) env_ok) ! 0
      \<in> set (panels (run (program Throughput) env_ok))"
    by (simp add: script_defs outcomes data_lengths observers)
  have s: "xscale (panels (run (program Throughput) env_ok) ! 0) = (''log'', [(''base'', KInt 2)])"
    by (simp add: script_defs outcomes data_lengths observers)
  from c4_log_panels_tick_labels [OF m s] m s show ?thesis by simp
qed

section \<open>Series lengths\<close>

text \<open>
  Claim C5: in every script and environment no plot call fails on the shapes of its
  arguments, every panel holds three series, and every series of every panel has as
  many y-values as x-values, namely four; the x-values are the ticks of its panel.
\<close>

theorem c5_series_lengths:
  "(\<forall>m n. raised (run (program sc) e) \<noteq> Some (ValueError m n))
   \<and> (\<forall>a \<in> set (panels (run (program sc) e)).
        length (ax_lines a) = 3
        \<and> (\<forall>l \<in> set (ax_lines a).
             length (ydata l) = length (xdata l) \<and> length (xdata l) = 4
             \<and> xticks a = Some (xdata l)))"
  by (cases sc) (auto simp add: script_defs outcomes data_lengths observers split: if_splits)

theorem c5_witness:
  "panels (run (program CacheMisses) env_ok) ! 1 \<in> set (panels (run (program CacheMisses) env_ok))
   \<and> ax_lines (panels (run (program CacheMisses) env_ok) ! 1) ! 2
       \<in> set (ax_lines (panels (run (program CacheMisses) env_ok) ! 1))
   \<and> ydata (ax_lines (panels (run (program CacheMisses) env_ok) ! 1) ! 2) = [8207, 9827, 6801, 12790]
   \<and> length (ydata (ax_lines (panels (run (program CacheMisses) env_ok) ! 1) ! 2)) =
       length (xdata (ax_lines (panels (run (program CacheMisses) env_ok) ! 1) ! 2))
   \<and> length (xdata (ax_lines (panels (run (program CacheMisses) env_ok) ! 1) ! 2)) = 4"
proof -
  have a: "panels (run (program CacheMisses) env_ok) ! 1
      \<in> set (panels (run (program CacheMisses) env_ok))"
    by (simp add: script_defs outcomes data_lengths observers)
  have l: "ax_lines (panels (run (program CacheMisses) env_ok) ! 1) ! 2
       \<in> set (ax_lines (panels (run (program CacheMisses) env_ok) ! 1))"
    by (simp add: script_defs outcomes data_lengths observers)
  have y: "ydata (ax_lines (panels (run (program CacheMisses) env_ok) ! 1) ! 2) =
      [8207, 9827, 6801, 12790]"
    by (simp add: script_defs outcomes data_lengths observers llc_misses_a3_def)
  from c5_series_lengths [of CacheMisses env_ok] a l y show ?thesis by auto
qed

section \<open>Independence of the environment\<close>

text \<open>
  Claim C6: a script reads nothing of its environment (command line, environment
  variables, files, network).  Whatever two environments it is run in, also when one
  lets the image be written and the other does not, it builds the same figure (hence the
  same declared size, the same tick labels, the same series in the same order) and asks
  for the same file to be saved with the same arguments.
\<close>

theorem c6_same_chart_in_every_environment:
  "fig (final (run (program sc) e1)) = fig (final (run (program sc) e2))
   \<and> fig (final (run (program sc) e1)) \<noteq> None
   \<and> savefig_calls (final (run (program sc) e1)) = savefig_calls (final (run (program sc) e2))"
  by (cases sc) (simp_all add: script_defs outcomes data_lengths observers)

section \<open>Failures\<close>

text \<open>
  Claim C7: where the write of the image fails, the run ends with the error of
  \<^verbatim>\<open>savefig\<close> itself, unchanged; \<^verbatim>\<open>savefig\<close> has been called once, no file
  is written and nothing is printed.  And whenever a run has printed its line, the file
  has been written and no exception was raised: the line comes only after a successful
  write.
\<close>

theorem c7_write_failure_propagates:
  "(\<not> writable e (output_file sc) \<longrightarrow>
      raised (run (program sc) e) = Some (OSError (output_file sc))
      \<and> printed (run (program sc) e) = []
      \<and> files_written (run (program sc) e) = []
      \<and> map fst (savefig_calls (final (run (program sc) e))) = [output_file sc])
   \<and> (printed (run (program sc) e) \<noteq> [] \<longrightarrow>
      files_written (run (program sc) e) = [output_file sc]
      \<and> raised (run (program sc) e) = None)"
  by (cases sc) (simp_all add: script_defs outcomes data_lengths observers)

theorem c7_witness:
  "\<not> writable env_readonly (output_file Latency)
   \<and> raised (run (program Latency) env_readonly) = Some (OSError ''MT25082_latency.png'')
   \<and> printed (run (program Latency) env_readonly) = []
   \<and> printed (run (program Latency) env_ok) \<noteq> []
   \<and> files_written (run (program Latency) env_ok) = [''MT25082_latency.png'']"
proof -
  have h1: "\<not> writable env_readonly (output_file Latency)"
    by (simp add: env_readonly_def)
  have h2: "printed (run (program Latency) env_ok) \<noteq> []"
    by (simp add: script_defs outcomes data_lengths observers env_ok_def)
  from c7_write_failure_propagates [of env_readonly Latency]
    c7_write_failure_propagates [of env_ok Latency] h1 h2
  show ?thesis by simp
qed

text \<open>
  A script run on lists of which one does not have the length of the x-axis list: the
  first plot call with such a list raises, and the run ends there.
\<close>

lemmas fail_defs = lib_defs observers shape_failure_def

lemma throughput_mismatch:
  assumes "length a1 \<noteq> length xs \<or> length a2 \<noteq> length xs \<or> length a3 \<noteq> length xs"
  shows "shape_failure (run (plot_throughput_on xs a1 a2 a3) e)"
proof -
  consider (1) "length xs \<noteq> length a1"
    | (2) "length xs = length a1" "length xs \<noteq> length a2"
    | (3) "length xs = length a1" "length xs = length a2" "length xs \<noteq> length a3"
    using assms by metis
  then show ?thesis
  proof cases
    case 1 then show ?thesis by (simp add: plot_throughput_on_def fail_defs)
  next
    case 2 then show ?thesis by (simp add: plot_throughput_on_def fail_defs)
  next
    case 3 then show ?thesis by (simp add: plot_throughput_on_def fail_defs)
  qed
qed

lemma cache_misses_mismatch:
  assumes "length l1_a1 \<noteq> length xs \<or> length l1_a2 \<noteq> length xs \<or> length l1_a3 \<noteq> length xs
    \<or> length llc_a1 \<noteq> length xs \<or> length llc_a2 \<noteq> length xs \<or> length llc_a3 \<noteq> length xs"
  shows "shape_failure (run (plot_cache_misses_on xs l1_a1 l1_a2 l1_a3 llc_a1 llc_a2 llc_a3) e)"
proof -
  consider (1) "length xs \<noteq> length l1_a1"
    | (2) "length xs = length l1_a1" "length xs \<noteq> length l1_a2"
    | (3) "length xs = length l1_a1" "length xs = length l1_a2" "length xs \<noteq> length l1_a3"
    | (4) "length xs = length l1_a1" "length xs = length l1_a2" "length xs = length l1_a3"
          "length xs \<noteq> length llc_a1"
    | (5) "length xs = length l1_a1" "length xs = length l1_a2" "length xs = length l1_a3"
          "length xs = length llc_a1" "length xs \<noteq> length llc_a2"
    | (6) "length xs = length l1_a1" "length xs = length l1_a2" "length xs = length l1_a3"
          "length xs = length llc_a1" "length xs = length llc_a2" "length xs \<noteq> length llc_a3"
    using assms by metis
  then show ?thesis
  proof cases
    case 1 then show ?thesis by (simp add: plot_cache_misses_on_def fail_defs replicate_two)
  next
    case 2 then show ?thesis by (simp add: plot_cache_misses_on_def fail_defs replicate_two)
  next
    case 3 then show ?thesis by (simp add: plot_cache_misses_on_def fail_defs replicate_two)
  next
    case 4 then show ?thesis by (simp add: plot_cache_misses_on_def fail_defs replicate_two)
  next
    case 5 then show ?thesis by (simp add: plot_cache_misses_on_def fail_defs replicate_two)
  next
    case 6 then show ?thesis by (simp add: plot_cache_misses_on_def fail_defs replicate_two)
  qed
qed

lemma cycles_per_byte_mismatch:
  assumes "length a1 \<noteq> length xs \<or> length a2 \<noteq> length xs \<or> length a3 \<noteq> length xs"
  shows "shape_failure (run (plot_cycles_per_byte_on xs a1 a2 a3) e)"
proof -
  consider (1) "length xs \<noteq> length a1"
    | (2) "length xs = length a1" "length xs \<noteq> length a2"
    | (3) "length xs = length a1" "length xs = length a2" "length xs \<noteq> length a3"
    using assms by metis
  then show ?thesis
  proof cases
    case 1 then show ?thesis by (simp add: plot_cycles_per_byte_on_def fail_defs)
  next
    case 2 then show ?thesis by (simp add: plot_cycles_per_byte_on_def fail_defs)
  next
    case 3 then show ?thesis by (simp add: plot_cycles_per_byte_on_def fail_defs)
  qed
qed

lemma latency_mismatch:
  assumes "length a1 \<noteq> length xs \<or> length a2 \<noteq> length xs \<or> length a3 \<noteq> length xs"
  shows "shape_failure (run (plot_latency_on xs a1 a2 a3) e)"
proof -
  consider (1) "length xs \<noteq> length a1"
    | (2) "length xs = length a1" "length xs \<noteq> length a2"
    | (3) "length xs = length a1" "length xs = length a2" "length xs \<noteq> length a3"
    using assms by metis
  then show ?thesis
  proof cases
    case 1 then show ?thesis by (simp add: plot_latency_on_def fail_defs)
  next
    case 2 then show ?thesis by (simp add: plot_latency_on_def fail_defs)
  next
    case 3 then show ?thesis by (simp add: plot_latency_on_def fail_defs)
  qed
qed

text \<open>
  Claim C8: when a series list of any of the four scripts does not have the length of
  the x-axis list, as after removing one value from it, the run fails in the plotting
  primitive with the shape-mismatch error; the script checks nothing itself, no image is
  written (so none with a truncated or padded series) and nothing is printed.
\<close>

theorem c8_length_mismatch_fails:
  "(length t1 \<noteq> length ts \<or> length t2 \<noteq> length ts \<or> length t3 \<noteq> length ts \<longrightarrow>
      shape_failure (run (plot_throughput_on ts t1 t2 t3) e))
   \<and> (length c1 \<noteq> length cs \<or> length c2 \<noteq> length cs \<or> length c3 \<noteq> length cs \<longrightarrow>
      shape_failure (run (plot_cycles_per_byte_on cs c1 c2 c3) e))
   \<and> (length n1 \<noteq> length ns \<or> length n2 \<noteq> length ns \<or> length n3 \<noteq> length ns \<longrightarrow>
      shape_failure (run (plot_latency_on ns n1 n2 n3) e))
   \<and> (length p1 \<noteq> length ms \<or> length p2 \<noteq> length ms \<or> length p3 \<noteq> length ms
       \<or> length q1 \<noteq> length ms \<or> length q2 \<noteq> length ms \<or> length q3 \<noteq> length ms \<longrightarrow>
      shape_failure (run (plot_cache_misses_on ms p1 p2 p3 q1 q2 q3) e))"
  using throughput_mismatch [of t1 ts t2 t3 e] cycles_per_byte_mismatch [of c1 cs c2 c3 e]
    latency_mismatch [of n1 ns n2 n3 e] cache_misses_mismatch [of p1 ms p2 p3 q1 q2 q3 e]
  by blast

theorem c8_witness:
  "length [0.7531, 3.064, 39.766 :: rat] \<noteq> length msg_sizes
   \<and> shape_failure
       (run (plot_throughput_on msg_sizes throughput_a1 [0.7531, 3.064, 39.766] throughput_a3) env_ok)
   \<and> shape_failure
       (run (plot_cycles_per_byte_on msg_sizes [161.7, 41.3, 10.8] cycles_per_byte_a2
          cycles_per_byte_a3) env_ok)
   \<and> shape_failure
       (run (plot_latency_on thread_counts latency_a1 latency_a2 [3.43, 1.72, 1.05]) env_ok)
   \<and> shape_failure
       (run (plot_cache_misses_on msg_sizes l1_misses_a1 l1_misses_a2 l1_misses_a3
          llc_misses_a1 [20707, 25050, 78139] llc_misses_a3) env_ok)"
  using c8_length_mismatch_fails
    [where ts = msg_sizes and ?t1.0 = throughput_a1 and ?t2.0 = "[0.7531, 3.064, 39.766]"
       and ?t3.0 = throughput_a3
       and cs = msg_sizes and ?c1.0 = "[161.7, 41.3, 10.8]" and ?c2.0 = cycles_per_byte_a2
       and ?c3.0 = cycles_per_byte_a3
       and ns = thread_counts and ?n1.0 = latency_a1 and ?n2.0 = latency_a2
       and ?n3.0 = "[3.43, 1.72, 1.05]"
       and ms = msg_sizes and ?p1.0 = l1_misses_a1 and ?p2.0 = l1_misses_a2
       and ?p3.0 = l1_misses_a3 and ?q1.0 = llc_misses_a1
       and ?q2.0 = "[20707, 25050, 78139]" and ?q3.0 = llc_misses_a3
       and e = env_ok]
  by (simp add: data_lengths)

section \<open>Saving and styling\<close>

text \<open>
  Claim C9: every script calls \<^verbatim>\<open>savefig\<close> exactly once, for its fixed file name,
  with 200 dots per inch and the bounding box \<^verbatim>\<open>tight\<close>; the file, where it can
  be written, is saved with these settings.
\<close>

theorem c9_savefig_dpi_bbox:
  "map (\<lambda>(f, kw). (f, kwarg kw ''dpi'', kwarg kw ''bbox_inches''))
       (savefig_calls (final (run (program sc) e))) =
     [(output_file sc, Some (KInt 200), Some (KStr ''tight''))]
   \<and> map (\<lambda>(f, g, kw). (f, kwarg kw ''dpi'', kwarg kw ''bbox_inches''))
       (written (final (run (program sc) e))) =
     (if writable e (output_file sc)
      then [(output_file sc, Some (KInt 200), Some (KStr ''tight''))] else [])"
  by (cases sc) (simp_all add: script_defs outcomes data_lengths observers kwarg_def)

text \<open>
  Claim C10: every script has at least one panel, and every panel of every script holds
  exactly three series, in the order A1, A2, A3, each with its fixed marker and colour:
  \<^verbatim>\<open>o\<close> and \<^verbatim>\<open>#e74c3c\<close>, \<^verbatim>\<open>s\<close> and \<^verbatim>\<open>#2ecc71\<close>, \<^verbatim>\<open>^\<close> and
  \<^verbatim>\<open>#3498db\<close>.
\<close>

theorem c10_series_order_and_style:
  "panels (run (program sc) e) \<noteq> []
   \<and> (\<forall>a \<in> set (panels (run (program sc) e)).
        map style (ax_lines a) =
          [(Some (KStr ''o''), Some (KStr ''#e74c3c''), Some (KStr ''A1: Two-Copy (send/recv)'')),
           (Some (KStr ''s''), Some (KStr ''#2ecc71''), Some (KStr ''A2: One-Copy (sendmsg + iovec)'')),
           (Some (KStr ''^''), Some (KStr ''#3498db''), Some (KStr ''A3: Zero-Copy (MSG_ZEROCOPY)''))])"
  by (cases sc) (auto simp add: script_defs outcomes data_lengths observers style_def kwarg_def
      split: if_splits)

theorem c10_witness:
  "panels (run (program Latency) env_ok) ! 0 \<in> set (panels (run (program Latency) env_ok))
   \<and> map style (ax_lines (panels (run (program Latency) env_ok) ! 0)) =
          [(Some (KStr ''o''), Some (KStr ''#e74c3c''), Some (KStr ''A1: Two-Copy (send/recv)'')),
           (Some (KStr ''s''), Some (KStr ''#2ecc71''), Some (KStr ''A2: One-Copy (sendmsg + iovec)'')),
           (Some (KStr ''^''), Some (KStr ''#3498db''), Some (KStr ''A3: Zero-Copy (MSG_ZEROCOPY)''))]"
proof -
  have a: "panels (run (program Latency) env_ok) ! 0 \<in> set (panels (run (program Latency) env_ok))"
    by (simp add: script_defs outcomes data_lengths observers)
  from c10_series_order_and_style [of Latency env_ok] a show ?thesis by blast
qed

end
